theory Spec2Isabelle
  imports Complex_Main "HOL-Library.Multiset" "HOL-Library.AList"
    "HOL-Library.Char_ord" "HOL-Library.List_Lexorder"
begin

section \<open>Audio fingerprinting: the pipeline and the matcher\<close>

text \<open>
  A shallow embedding of \<^verbatim>\<open>src/audio-fingerprinting-core.py\<close> and
  \<^verbatim>\<open>src/audio-fingerprinting-database.py\<close>.

  Python integers are \<^typ>\<open>int\<close>; list positions that come out of \<^verbatim>\<open>range\<close> are
  \<^typ>\<open>nat\<close> and are converted where the code stores them in a tuple. Decibel magnitudes
  and audio samples are \<^typ>\<open>real\<close>: the code only compares them, and the not-a-number
  value of floating point is left out of the model.
\<close>

subsection \<open>Data\<close>

text \<open>The dataclass \<^verbatim>\<open>AudioFingerprint\<close> (core, lines 17-25).\<close>

record AudioFingerprint =
  hash_value :: int
  track_id :: "string option"
  time_offset :: int
  frequency_pair :: "int \<times> int"

text \<open>The attributes that \<^verbatim>\<open>RobustAudioFingerprinter.__init__\<close> stores (core, lines 31-50).\<close>

record RobustAudioFingerprinter =
  sample_rate :: int
  n_fft :: int
  hop_length :: int
  max_peaks :: int

definition default_fingerprinter :: RobustAudioFingerprinter where
  "default_fingerprinter =
     \<lparr>sample_rate = 16000, n_fft = 2048, hop_length = 512, max_peaks = 100\<rparr>"

text \<open>A peak is the tuple \<^verbatim>\<open>(time_index, frequency_index, magnitude)\<close>.\<close>

type_synonym peak = "int \<times> int \<times> real"

definition peak_time :: "peak \<Rightarrow> int" where
  "peak_time p = fst p"

definition peak_freq :: "peak \<Rightarrow> int" where
  "peak_freq p = fst (snd p)"

definition peak_mag :: "peak \<Rightarrow> real" where
  "peak_mag p = snd (snd p)"

text \<open>
  The spectrogram is the two-dimensional array \<^verbatim>\<open>spectrogram[f, t]\<close>. The code only ever
  reads whole columns \<^verbatim>\<open>spectrogram[:, t]\<close> for \<^verbatim>\<open>t\<close> in
  \<^verbatim>\<open>range(spectrogram.shape[1])\<close>, so the grid is held column by column: element \<open>t\<close>
  of the list is the frame \<^verbatim>\<open>spectrogram[:, t]\<close>.
\<close>

type_synonym spectrogram = "real list list"

datatype error = ValueError string | LibraryError string | AttributeError string

fun error_message :: "error \<Rightarrow> string" where
  "error_message (ValueError m) = m"
| "error_message (LibraryError m) = m"
| "error_message (AttributeError m) = m"

subsection \<open>Python list operations\<close>

text \<open>\<^verbatim>\<open>xs[a:b]\<close> for \<open>0 \<le> a\<close> and \<open>0 \<le> b\<close>; a bound past the end is clipped.\<close>

definition py_slice :: "'a list \<Rightarrow> nat \<Rightarrow> nat \<Rightarrow> 'a list" where
  "py_slice xs a b = drop a (take b xs)"

text \<open>\<^verbatim>\<open>xs[:n]\<close>; a negative \<open>n\<close> counts from the end.\<close>

definition py_prefix :: "'a list \<Rightarrow> int \<Rightarrow> 'a list" where
  "py_prefix xs n =
     (if 0 \<le> n then take (nat n) xs else take (nat (int (length xs) + n)) xs)"

text \<open>
  \<^verbatim>\<open>xs.sort(key=lambda x: x[1], reverse=True)\<close> and
  \<^verbatim>\<open>sorted(xs, key=lambda x: x[1], reverse=True)\<close>: Python's sort is stable, also with
  \<^verbatim>\<open>reverse=True\<close> (elements with equal keys keep their original order). The stable
  insertion sort \<^const>\<open>sort_key\<close> on the negated key does the same.
\<close>

definition sort_by_second_desc :: "('a \<times> 'b::linordered_ab_group_add) list \<Rightarrow> ('a \<times> 'b) list" where
  "sort_by_second_desc xs = sort_key (\<lambda>x. - snd x) xs"

subsection \<open>\<^verbatim>\<open>find_peaks\<close> (core, lines 96-130)\<close>

text \<open>\<^verbatim>\<open>frame[max(0, f-5):min(len(frame), f+6)]\<close>\<close>

definition neighborhood :: "real list \<Rightarrow> nat \<Rightarrow> real list" where
  "neighborhood frame f =
     py_slice frame (nat (max 0 (int f - 5))) (nat (min (int (length frame)) (int f + 6)))"

text \<open>
  \<^verbatim>\<open>is_peak\<close> after the test
  \<^verbatim>\<open>if len(neighborhood) > 0 and frame[f] != max(neighborhood): is_peak = False\<close>.
\<close>

definition is_peak :: "real list \<Rightarrow> nat \<Rightarrow> bool" where
  "is_peak frame f =
     (let nb = neighborhood frame f
      in \<not> (length nb > 0 \<and> frame ! f \<noteq> Max (set nb)))"

text \<open>The list \<^verbatim>\<open>local_peaks\<close> when the loop over \<^verbatim>\<open>range(len(frame))\<close> ends.\<close>

definition local_peaks :: "real list \<Rightarrow> (nat \<times> real) list" where
  "local_peaks frame =
     map (\<lambda>f. (f, frame ! f))
       (filter (\<lambda>f. is_peak frame f \<and> frame ! f > - 40) [0..<length frame])"

text \<open>\<^verbatim>\<open>local_peaks.sort(...)\<close> followed by \<^verbatim>\<open>local_peaks[:self.max_peaks]\<close>.\<close>

definition top_peaks :: "RobustAudioFingerprinter \<Rightarrow> real list \<Rightarrow> (nat \<times> real) list" where
  "top_peaks self frame = py_prefix (sort_by_second_desc (local_peaks frame)) (max_peaks self)"

text \<open>What one round of the outer loop appends to \<^verbatim>\<open>peaks\<close>.\<close>

definition frame_peaks :: "RobustAudioFingerprinter \<Rightarrow> nat \<Rightarrow> real list \<Rightarrow> peak list" where
  "frame_peaks self t frame =
     map (\<lambda>(freq, mag). (int t, int freq, mag)) (top_peaks self frame)"

definition find_peaks :: "RobustAudioFingerprinter \<Rightarrow> spectrogram \<Rightarrow> peak list" where
  "find_peaks self spectrogram =
     concat (map (\<lambda>t. frame_peaks self t (spectrogram ! t)) [0..<length spectrogram])"

subsection \<open>The libraries the code calls\<close>

text \<open>
  \<^verbatim>\<open>librosa\<close>, \<^verbatim>\<open>numpy\<close> and \<^verbatim>\<open>hashlib\<close> are not part of the repository. The code is
  modelled over a record of the functions it calls from them; each call that can raise
  returns a sum, with the exception on the left.
  \<^item> \<open>librosa_load path\<close> is \<^verbatim>\<open>librosa.load(path, sr=16000)[0]\<close>;
  \<^item> \<open>librosa_normalize\<close> is \<^verbatim>\<open>librosa.util.normalize\<close>;
  \<^item> \<open>librosa_trim a\<close> is \<^verbatim>\<open>librosa.effects.trim(a)[0]\<close>;
  \<^item> \<open>librosa_stft_abs n h a\<close> is \<^verbatim>\<open>np.abs(librosa.stft(a, n_fft=n, hop_length=h))\<close>;
  \<^item> \<open>librosa_amplitude_to_db s\<close> is \<^verbatim>\<open>librosa.amplitude_to_db(s, ref=np.max)\<close>;
  \<^item> \<open>hashlib_sha256 s\<close> is \<^verbatim>\<open>int(hashlib.sha256(s.encode()).hexdigest(), 16)\<close>.
\<close>

record library =
  librosa_load :: "string \<Rightarrow> error + real list"
  librosa_normalize :: "real list \<Rightarrow> error + real list"
  librosa_trim :: "real list \<Rightarrow> error + real list"
  librosa_stft_abs :: "int \<Rightarrow> int \<Rightarrow> real list \<Rightarrow> error + spectrogram"
  librosa_amplitude_to_db :: "spectrogram \<Rightarrow> error + spectrogram"
  hashlib_sha256 :: "string \<Rightarrow> nat"

subsection \<open>\<^verbatim>\<open>generate_hashes\<close> (core, lines 132-170)\<close>

text \<open>\<^verbatim>\<open>str\<close> of a Python integer, as the f-string of line 158 formats it.\<close>

definition digit_char :: "nat \<Rightarrow> char" where
  "digit_char d = ''0123456789'' ! d"

fun str_nat :: "nat \<Rightarrow> string" where
  "str_nat n = (if n < 10 then [digit_char n] else str_nat (n div 10) @ [digit_char (n mod 10)])"

definition py_str :: "int \<Rightarrow> string" where
  "py_str i = (if i < 0 then CHR ''-'' # str_nat (nat (- i)) else str_nat (nat i))"

text \<open>\<^verbatim>\<open>f"{freq1}|{freq2}|{time_diff}"\<close>\<close>

definition hash_input :: "int \<Rightarrow> int \<Rightarrow> int \<Rightarrow> string" where
  "hash_input freq1 freq2 time_diff = py_str freq1 @ ''|'' @ py_str freq2 @ ''|'' @ py_str time_diff"

text \<open>\<^verbatim>\<open>time_diff = target[0] - anchor[0]\<close>\<close>

definition time_diff :: "peak \<Rightarrow> peak \<Rightarrow> int" where
  "time_diff anchor target = peak_time target - peak_time anchor"

text \<open>The body of the inner loop: the fingerprint of one anchor and one target.\<close>

definition make_fingerprint :: "library \<Rightarrow> peak \<Rightarrow> peak \<Rightarrow> AudioFingerprint" where
  "make_fingerprint L anchor target =
     (let freq1 = peak_freq anchor;
          freq2 = peak_freq target;
          hash_val = int (hashlib_sha256 L (hash_input freq1 freq2 (time_diff anchor target))) mod 2 ^ 32
      in \<lparr>hash_value = hash_val, track_id = None, time_offset = peak_time anchor,
          frequency_pair = (freq1, freq2)\<rparr>)"

text \<open>\<^verbatim>\<open>range(i + 1, min(i + fan_out + 1, len(peaks)))\<close>\<close>

definition target_range :: "peak list \<Rightarrow> int \<Rightarrow> nat \<Rightarrow> nat list" where
  "target_range peaks fan_out i =
     [i + 1 ..< nat (min (int i + fan_out + 1) (int (length peaks)))]"

text \<open>The pairs \<^verbatim>\<open>(anchor, target)\<close> in the order the two loops visit them.\<close>

definition landmark_pairs :: "peak list \<Rightarrow> int \<Rightarrow> (peak \<times> peak) list" where
  "landmark_pairs peaks fan_out =
     concat (map (\<lambda>i. map (\<lambda>j. (peaks ! i, peaks ! j)) (target_range peaks fan_out i))
       [0..<length peaks])"

definition generate_hashes :: "library \<Rightarrow> peak list \<Rightarrow> int \<Rightarrow> AudioFingerprint list" where
  "generate_hashes L peaks fan_out =
     map (\<lambda>(anchor, target). make_fingerprint L anchor target) (landmark_pairs peaks fan_out)"

subsection \<open>\<^verbatim>\<open>preprocess_audio\<close>, \<^verbatim>\<open>generate_spectrogram\<close>, \<^verbatim>\<open>fingerprint_audio\<close>\<close>

definition preprocess_audio :: "library \<Rightarrow> real list \<Rightarrow> error + real list" where
  "preprocess_audio L audio =
     (if length audio = 0 then Inl (ValueError ''Empty audio input'')
      else case librosa_normalize L audio of
             Inl e \<Rightarrow> Inl e
           | Inr normalized \<Rightarrow>
               (case librosa_trim L normalized of
                  Inl e \<Rightarrow> Inl e
                | Inr trimmed \<Rightarrow> Inr trimmed))"

definition generate_spectrogram ::
  "library \<Rightarrow> RobustAudioFingerprinter \<Rightarrow> real list \<Rightarrow> error + spectrogram" where
  "generate_spectrogram L self audio =
     (case librosa_stft_abs L (n_fft self) (hop_length self) audio of
        Inl e \<Rightarrow> Inl e
      | Inr stft \<Rightarrow> librosa_amplitude_to_db L stft)"

text \<open>
  The \<^verbatim>\<open>try\<close> block of \<^verbatim>\<open>fingerprint_audio\<close> (lines 188-204); \<^verbatim>\<open>generate_hashes\<close> is called
  with its default \<^verbatim>\<open>fan_out=5\<close>, and the last loop sets \<^verbatim>\<open>track_id\<close> on every
  fingerprint.
\<close>

definition fingerprint_audio_try ::
  "library \<Rightarrow> RobustAudioFingerprinter \<Rightarrow> real list \<Rightarrow> string option \<Rightarrow> error + AudioFingerprint list"
  where
  "fingerprint_audio_try L self audio tid =
     (case preprocess_audio L audio of
        Inl e \<Rightarrow> Inl e
      | Inr processed_audio \<Rightarrow>
          (case generate_spectrogram L self processed_audio of
             Inl e \<Rightarrow> Inl e
           | Inr spectrogram \<Rightarrow>
               (let peaks = find_peaks self spectrogram;
                    fingerprints = generate_hashes L peaks 5
                in Inr (map (\<lambda>fp. fp\<lparr>track_id := tid\<rparr>) fingerprints))))"

text \<open>
  The log is the list of messages given to \<^verbatim>\<open>logger.error\<close> so far; a function that
  logs takes it and returns it extended. \<^verbatim>\<open>except Exception as e\<close> (lines 206-208)
  catches every error of the block, logs it and returns the empty list.
\<close>

type_synonym log_lines = "string list"

definition fingerprint_audio ::
  "library \<Rightarrow> RobustAudioFingerprinter \<Rightarrow> real list \<Rightarrow> string option \<Rightarrow> log_lines
     \<Rightarrow> AudioFingerprint list \<times> log_lines" where
  "fingerprint_audio L self audio tid lg =
     (case fingerprint_audio_try L self audio tid of
        Inr fingerprints \<Rightarrow> (fingerprints, lg)
      | Inl e \<Rightarrow> ([], lg @ [''Fingerprinting failed: '' @ error_message e]))"

subsection \<open>\<^verbatim>\<open>parallel_fingerprint\<close> (core, lines 210-258)\<close>

text \<open>
  \<^verbatim>\<open>os.path.basename\<close> and \<^verbatim>\<open>os.path.splitext(name)[0]\<close> of the POSIX path module: the
  part after the last slash, and that name without its extension; the extension starts at
  the last dot unless only dots come before it.
\<close>

definition basename :: "string \<Rightarrow> string" where
  "basename p = rev (takeWhile (\<lambda>c. c \<noteq> CHR ''/'') (rev p))"

definition splitext_root :: "string \<Rightarrow> string" where
  "splitext_root name =
     (let root = take (length name - length (takeWhile (\<lambda>c. c \<noteq> CHR ''.'') (rev name)) - 1) name
      in if CHR ''.'' \<in> set name \<and> (\<exists>c\<in>set root. c \<noteq> CHR ''.'') then root else name)"

definition track_id_of :: "string \<Rightarrow> string" where
  "track_id_of file_path = splitext_root (basename file_path)"

text \<open>
  \<^verbatim>\<open>process_file\<close> (lines 227-244): \<^verbatim>\<open>None\<close> when the \<^verbatim>\<open>try\<close> block raised, which only
  \<^verbatim>\<open>librosa.load\<close> can do, since \<^verbatim>\<open>fingerprint_audio\<close> catches its own errors.
\<close>

definition process_file ::
  "library \<Rightarrow> string \<Rightarrow> log_lines \<Rightarrow> (string \<times> AudioFingerprint list) option \<times> log_lines" where
  "process_file L file_path lg =
     (let tid = track_id_of file_path
      in case librosa_load L file_path of
           Inl e \<Rightarrow> (None, lg @ [''Failed to process '' @ file_path @ '': '' @ error_message e])
         | Inr audio \<Rightarrow>
             (let (fingerprints, lg') = fingerprint_audio L default_fingerprinter audio (Some tid) lg
              in (Some (tid, fingerprints), lg')))"

text \<open>
  \<^verbatim>\<open>Pool.map(func, iterable)\<close> of \<^verbatim>\<open>multiprocessing\<close>. The pool hands \<^verbatim>\<open>func\<close> to its
  worker processes by pickling it. With an empty \<^verbatim>\<open>iterable\<close> there is nothing to hand
  over and the call returns the empty list. Otherwise it returns the results in the order
  of the inputs when \<^verbatim>\<open>func\<close> can be pickled, and raises \<^verbatim>\<open>AttributeError\<close> in the calling
  process, before any input is processed, when it cannot. Whether a function can be
  pickled is not a property of its values, so the model takes it as a flag: a function
  defined at the top of a module can be pickled, a function defined inside another one
  cannot.
\<close>

definition cannot_pickle :: "string \<Rightarrow> string" where
  "cannot_pickle name = ''Can't pickle local object '' @ [CHR 0x27] @ name @ [CHR 0x27]"

definition pool_map :: "bool \<Rightarrow> string \<Rightarrow> ('a \<Rightarrow> 'b) \<Rightarrow> 'a list \<Rightarrow> error + 'b list" where
  "pool_map picklable name func iterable =
     (if iterable = [] then Inr []
      else if picklable then Inr (map func iterable)
      else Inl (AttributeError (cannot_pickle name)))"

text \<open>
  The dictionary comprehension of lines 251-256. A Python dictionary keeps its keys in
  the order of their first insertion and a later value for a key replaces the earlier
  one in place, which is \<^const>\<open>AList.update\<close> on an association list.
\<close>

type_synonym fingerprint_dict = "(string \<times> AudioFingerprint list) list"

fun build_dict ::
  "(string \<times> AudioFingerprint list) option list \<Rightarrow> fingerprint_dict \<Rightarrow> fingerprint_dict" where
  "build_dict [] d = d"
| "build_dict (None # results) d = build_dict results d"
| "build_dict (Some (tid, fingerprints) # results) d =
     build_dict results (AList.update tid fingerprints d)"

text \<open>
  \<^verbatim>\<open>parallel_fingerprint\<close>. \<^verbatim>\<open>process_file\<close> is defined inside it (line 227), so the pool
  cannot pickle it, and nothing catches what \<^verbatim>\<open>pool.map\<close> raises (lines 247-248). The
  workers would return what \<^verbatim>\<open>process_file\<close> returns and log in their own processes. The
  argument \<^verbatim>\<open>num_processes\<close> has no part in the result and is left out.
\<close>

definition parallel_fingerprint :: "library \<Rightarrow> string list \<Rightarrow> error + fingerprint_dict" where
  "parallel_fingerprint L audio_files =
     (case pool_map False ''parallel_fingerprint.<locals>.process_file''
             (\<lambda>file_path. fst (process_file L file_path [])) audio_files of
        Inl e \<Rightarrow> Inl e
      | Inr results \<Rightarrow> Inr (build_dict results []))"

subsection \<open>The fingerprint table (database, lines 29-38 and 53-80)\<close>

text \<open>
  A row of the table \<^verbatim>\<open>fingerprints\<close>:
  \<^verbatim>\<open>(hash_value, track_id, time_offset, freq1, freq2)\<close>. The table is the list of its rows,
  in the order in which a \<^verbatim>\<open>SELECT\<close> returns them. The first three columns are the
  primary key. The code only stores integers and strings there, never \<^verbatim>\<open>NULL\<close>.
\<close>

type_synonym row = "int \<times> string \<times> int \<times> int \<times> int"

type_synonym database = "row list"

definition primary_key :: "row \<Rightarrow> int \<times> string \<times> int" where
  "primary_key r = (case r of (hv, tid, off, freq1, freq2) \<Rightarrow> (hv, tid, off))"

text \<open>\<^verbatim>\<open>INSERT OR IGNORE\<close>: a row whose primary key is already in the table is dropped.\<close>

definition insert_or_ignore :: "row \<Rightarrow> database \<Rightarrow> database" where
  "insert_or_ignore r db = (if primary_key r \<in> primary_key ` set db then db else db @ [r])"

text \<open>The inner loop of \<^verbatim>\<open>insert_fingerprints\<close>, over the fingerprints of one track.\<close>

fun insert_track :: "string \<Rightarrow> AudioFingerprint list \<Rightarrow> database \<Rightarrow> database" where
  "insert_track tid [] db = db"
| "insert_track tid (fp # fingerprints) db =
     insert_track tid fingerprints
       (insert_or_ignore
          (hash_value fp, tid, time_offset fp, fst (frequency_pair fp), snd (frequency_pair fp)) db)"

text \<open>The outer loop, over \<^verbatim>\<open>fingerprints_dict.items()\<close>.\<close>

fun insert_fingerprints :: "fingerprint_dict \<Rightarrow> database \<Rightarrow> database" where
  "insert_fingerprints [] db = db"
| "insert_fingerprints ((tid, fingerprints) # items) db =
     insert_fingerprints items (insert_track tid fingerprints db)"

subsection \<open>\<^verbatim>\<open>match_fingerprint\<close> (database, lines 111-162)\<close>

text \<open>\<^verbatim>\<open>SELECT track_id, time_offset FROM fingerprints WHERE hash_value = ?\<close>\<close>

definition select_by_hash :: "database \<Rightarrow> int \<Rightarrow> (string \<times> int) list" where
  "select_by_hash db h =
     map (\<lambda>(hv, tid, off, freq1, freq2). (tid, off))
       (filter (\<lambda>(hv, tid, off, freq1, freq2). hv = h) db)"

text \<open>
  \<^verbatim>\<open>track_matches\<close> is a dictionary from a track to the list of its time differences,
  with the keys in the order of their first insertion. Lines 143-146 add the key with an
  empty list when it is new and append the difference.
\<close>

type_synonym track_matches = "(string \<times> int list) list"

fun append_diff :: "string \<Rightarrow> int \<Rightarrow> track_matches \<Rightarrow> track_matches" where
  "append_diff tid d [] = [(tid, [d])]"
| "append_diff tid d ((k, ds) # tm) =
     (if k = tid then (k, ds @ [d]) # tm else (k, ds) # append_diff tid d tm)"

text \<open>The loop over \<^verbatim>\<open>cursor.fetchall()\<close> for one sample fingerprint.\<close>

fun match_rows :: "AudioFingerprint \<Rightarrow> (string \<times> int) list \<Rightarrow> track_matches \<Rightarrow> track_matches" where
  "match_rows fp [] tm = tm"
| "match_rows fp ((tid, db_time_offset) # rows) tm =
     match_rows fp rows (append_diff tid \<bar>time_offset fp - db_time_offset\<bar> tm)"

text \<open>The loop over \<^verbatim>\<open>sample_fingerprints\<close>.\<close>

fun match_samples :: "database \<Rightarrow> AudioFingerprint list \<Rightarrow> track_matches \<Rightarrow> track_matches" where
  "match_samples db [] tm = tm"
| "match_samples db (fp # fps) tm =
     match_samples db fps (match_rows fp (select_by_hash db (hash_value fp)) tm)"

text \<open>
  \<^verbatim>\<open>total_matches / max(1, unique_matches)\<close> with \<^verbatim>\<open>unique_matches = len(set(time_diffs))\<close>.
  The quotient is exact here; Python rounds it to a float.
\<close>

definition confidence :: "int list \<Rightarrow> rat" where
  "confidence time_diffs =
     of_nat (length time_diffs) / of_nat (max 1 (length (remdups time_diffs)))"

text \<open>The list \<^verbatim>\<open>match_results\<close> after the loop of lines 150-159.\<close>

definition match_results :: "int \<Rightarrow> track_matches \<Rightarrow> (string \<times> rat) list" where
  "match_results threshold tm =
     map (\<lambda>(tid, time_diffs). (tid, confidence time_diffs))
       (filter (\<lambda>(tid, time_diffs). int (length time_diffs) \<ge> threshold) tm)"

definition match_fingerprint ::
  "database \<Rightarrow> AudioFingerprint list \<Rightarrow> int \<Rightarrow> (string \<times> rat) list" where
  "match_fingerprint db sample_fingerprints threshold =
     sort_by_second_desc (match_results threshold (match_samples db sample_fingerprints []))"


section \<open>Notions the statements use\<close>

subsection \<open>The matcher as the specification words it\<close>

text \<open>
  The index hits of a query: for every query fingerprint in turn and every row the
  index holds for its hash, the track of the row and the alignment delta
  \<open>\<bar>query time_offset - db time_offset\<bar>\<close>.
\<close>

definition index_hits :: "database \<Rightarrow> AudioFingerprint list \<Rightarrow> (string \<times> int) list" where
  "index_hits db q =
     concat (map (\<lambda>fp. map (\<lambda>(tid, off). (tid, \<bar>time_offset fp - off\<bar>))
                        (select_by_hash db (hash_value fp))) q)"

text \<open>The deltas recorded for one track, their number and the number of distinct ones.\<close>

definition deltas :: "database \<Rightarrow> AudioFingerprint list \<Rightarrow> string \<Rightarrow> int list" where
  "deltas db q tid = map snd (filter (\<lambda>h. fst h = tid) (index_hits db q))"

definition total_matches :: "database \<Rightarrow> AudioFingerprint list \<Rightarrow> string \<Rightarrow> nat" where
  "total_matches db q tid = length (deltas db q tid)"

definition unique_deltas :: "database \<Rightarrow> AudioFingerprint list \<Rightarrow> string \<Rightarrow> nat" where
  "unique_deltas db q tid = card (set (deltas db q tid))"

text \<open>The elements of a list in the order of their first occurrence.\<close>

definition first_occurrences :: "'a list \<Rightarrow> 'a list" where
  "first_occurrences xs = rev (remdups (rev xs))"

text \<open>The tracks that the query hits, in the order in which it first hits them.\<close>

definition first_hit_order :: "database \<Rightarrow> AudioFingerprint list \<Rightarrow> string list" where
  "first_hit_order db q = first_occurrences (map fst (index_hits db q))"

text \<open>
  The order the specification asks of the result: confidence descending, and track
  identifiers ascending among equal confidences. Strings compare as in Python, character
  by character.
\<close>

definition spec_result_order :: "(string \<times> rat) list \<Rightarrow> bool" where
  "spec_result_order r =
     sorted_wrt (\<lambda>a b. snd b < snd a \<or> (snd b = snd a \<and> fst a < fst b)) r"

subsection \<open>The peak test as the specification words it\<close>

text \<open>
  Bin \<open>f\<close> is the strict maximum of its neighbourhood: every other bin at most five
  bins away is strictly lower.
\<close>

definition spec_strict_local_max :: "real list \<Rightarrow> nat \<Rightarrow> bool" where
  "spec_strict_local_max frame f =
     list_all (\<lambda>g. g = f \<or> f > g + 5 \<or> g > f + 5 \<or> frame ! g < frame ! f) [0..<length frame]"

subsection \<open>Auxiliary notions of the proofs\<close>

text \<open>Adding a list of hits to \<^verbatim>\<open>track_matches\<close>, and the deltas of one track in a list of hits.\<close>

definition add_hits :: "(string \<times> int) list \<Rightarrow> track_matches \<Rightarrow> track_matches" where
  "add_hits hs tm = foldl (\<lambda>m h. append_diff (fst h) (snd h) m) tm hs"

definition group_of :: "(string \<times> int) list \<Rightarrow> string \<Rightarrow> int list" where
  "group_of hs tid = map snd (filter (\<lambda>h. fst h = tid) hs)"

text \<open>The primary keys that inserting a track, or a whole dictionary, asks for.\<close>

definition track_keys :: "string \<Rightarrow> AudioFingerprint list \<Rightarrow> (int \<times> string \<times> int) set" where
  "track_keys tid fps = (\<lambda>fp. (hash_value fp, tid, time_offset fp)) ` set fps"

definition dict_keys :: "fingerprint_dict \<Rightarrow> (int \<times> string \<times> int) set" where
  "dict_keys d = (\<Union>(tid, fps)\<in>set d. track_keys tid fps)"

text \<open>The tracks of the results that a worker function returned, in their order.\<close>

fun result_tracks :: "(string \<times> AudioFingerprint list) option list \<Rightarrow> string list" where
  "result_tracks [] = []"
| "result_tracks (None # results) = result_tracks results"
| "result_tracks (Some (tid, fingerprints) # results) = tid # result_tracks results"

subsection \<open>Concrete inputs\<close>

text \<open>
  A small instance of the library record, for running the model: four files are known
  (one of them, \<^verbatim>\<open>b.wav\<close>, decodes to an empty buffer), every sample becomes one frame
  of one bin, and the digest of a string is the sum of its character codes. None of the
  general theorems depends on it.
\<close>

definition toy_library :: library where
  "toy_library =
     \<lparr>librosa_load = (\<lambda>path.
          if path = ''a.wav'' then Inr [0, 0]
          else if path = ''b.wav'' then Inr []
          else if path = ''c.wav'' then Inr [0, 0, 0]
          else if path = ''live/a.wav'' then Inr [0, 0, 0]
          else Inl (LibraryError ''file not found'')),
      librosa_normalize = Inr,
      librosa_trim = Inr,
      librosa_stft_abs = (\<lambda>n h audio. Inr (map (\<lambda>x. [x]) audio)),
      librosa_amplitude_to_db = Inr,
      hashlib_sha256 = (\<lambda>s. sum_list (map of_char s))\<rparr>"

text \<open>Two stored tracks, each hit once by a query of two fingerprints, \<open>b\<close> first.\<close>

definition tie_db :: database where
  "tie_db = [(1, ''b'', 0, 0, 0), (2, ''a'', 0, 0, 0)]"

definition tie_query :: "AudioFingerprint list" where
  "tie_query =
     [\<lparr>hash_value = 1, track_id = None, time_offset = 0, frequency_pair = (0, 0)\<rparr>,
      \<lparr>hash_value = 2, track_id = None, time_offset = 0, frequency_pair = (0, 0)\<rparr>]"

text \<open>
  A table in which a query of two fingerprints hits track \<open>a\<close> twice, at the same
  delta, and track \<open>b\<close> once.
\<close>

definition small_db :: database where
  "small_db = [(1, ''a'', 0, 3, 4), (2, ''a'', 5, 4, 7), (1, ''b'', 3, 3, 4)]"

definition small_query :: "AudioFingerprint list" where
  "small_query =
     [\<lparr>hash_value = 1, track_id = None, time_offset = 0, frequency_pair = (3, 4)\<rparr>,
      \<lparr>hash_value = 2, track_id = None, time_offset = 5, frequency_pair = (4, 7)\<rparr>]"

text \<open>A frame whose two bins are equally loud, and a frame with three peaks.\<close>

definition plateau_frame :: "real list" where
  "plateau_frame = [- 10, - 10]"

definition three_peak_frame :: "real list" where
  "three_peak_frame = [- 5, - 20, - 20, - 20, - 20, - 20, - 3, - 20, - 20, - 20, - 20, - 20, - 8]"

section \<open>Properties\<close>


subsection \<open>Lists\<close>

lemma sorted_desc_sort_by_second_desc:
  "sorted_wrt (\<lambda>a b. snd b \<le> snd a) (sort_by_second_desc xs)"
proof -
  have "sorted (map (\<lambda>x. - snd x) (sort_by_second_desc xs))"
    unfolding sort_by_second_desc_def by (rule sorted_sort_key)
  then show ?thesis by (simp add: sorted_map)
qed

lemma sort_by_second_desc_stable:
  "filter (\<lambda>x. snd x = c) (sort_by_second_desc xs) = filter (\<lambda>x. snd x = c) xs"
proof -
  have "filter (\<lambda>x. - snd x = - c) (sort_key (\<lambda>x. - snd x) xs) = filter (\<lambda>x. - snd x = - c) xs"
    by (rule sort_key_stable)
  then show ?thesis by (simp add: sort_by_second_desc_def)
qed

lemma distinct_map_fst_sort:
  "distinct (map fst (sort_by_second_desc xs)) = distinct (map fst xs)"
proof -
  have "mset (map fst (sort_by_second_desc xs)) = mset (map fst xs)"
    by (simp add: sort_by_second_desc_def)
  then show ?thesis by (rule mset_eq_imp_distinct_iff)
qed

lemma set_py_slice:
  "set (py_slice xs a b) = {xs ! i | i. a \<le> i \<and> i < b \<and> i < length xs}"
proof (rule set_eqI)
  fix x
  show "x \<in> set (py_slice xs a b) \<longleftrightarrow> x \<in> {xs ! i | i. a \<le> i \<and> i < b \<and> i < length xs}"
  proof
    assume "x \<in> set (py_slice xs a b)"
    then obtain k where k: "k < length (drop a (take b xs))" "drop a (take b xs) ! k = x"
      unfolding py_slice_def in_set_conv_nth by blast
    from k(1) have "k < length (take b xs) - a"
      by simp
    then have len: "a + k < length (take b xs)"
      by arith
    then have "a + k < b" "a + k < length xs"
      by simp_all
    moreover have "x = xs ! (a + k)"
      using k(2) len by (simp add: nth_drop less_imp_le)
    moreover have "a \<le> a + k"
      by simp
    ultimately show "x \<in> {xs ! i | i. a \<le> i \<and> i < b \<and> i < length xs}"
      by blast
  next
    assume "x \<in> {xs ! i | i. a \<le> i \<and> i < b \<and> i < length xs}"
    then obtain i where i: "x = xs ! i" "a \<le> i" "i < b" "i < length xs"
      by blast
    then have "i - a < length (drop a (take b xs))" "drop a (take b xs) ! (i - a) = x"
      by auto
    then show "x \<in> set (py_slice xs a b)"
      unfolding py_slice_def in_set_conv_nth by blast
  qed
qed

lemma neighborhood_bounds:
  "nat (max 0 (int f - 5)) \<le> i \<longleftrightarrow> f \<le> i + 5"
  "i < nat (min (int n) (int f + 6)) \<longleftrightarrow> i < n \<and> i \<le> f + 5"
  by auto

lemma set_neighborhood:
  "set (neighborhood frame f) = {frame ! g | g. g < length frame \<and> f \<le> g + 5 \<and> g \<le> f + 5}"
  unfolding neighborhood_def set_py_slice neighborhood_bounds by auto

lemma is_peak_iff:
  assumes "f < length frame"
  shows "is_peak frame f \<longleftrightarrow> (\<forall>g<length frame. f \<le> g + 5 \<and> g \<le> f + 5 \<longrightarrow> frame ! g \<le> frame ! f)"
proof -
  let ?N = "set (neighborhood frame f)"
  have mem: "frame ! f \<in> ?N" using assms unfolding set_neighborhood by auto
  have fin: "finite ?N" by simp
  have ne: "neighborhood frame f \<noteq> []" using mem by auto
  have "is_peak frame f \<longleftrightarrow> frame ! f = Max ?N"
    using ne by (simp add: is_peak_def Let_def)
  also have "\<dots> \<longleftrightarrow> (\<forall>x\<in>?N. x \<le> frame ! f)"
    using mem fin by (metis Max_eqI Max_ge)
  also have "\<dots> \<longleftrightarrow> (\<forall>g<length frame. f \<le> g + 5 \<and> g \<le> f + 5 \<longrightarrow> frame ! g \<le> frame ! f)"
    unfolding set_neighborhood by auto
  finally show ?thesis .
qed

lemma local_peaks_iff:
  "(f, m) \<in> set (local_peaks frame) \<longleftrightarrow>
     f < length frame \<and> m = frame ! f \<and> - 40 < m \<and>
     (\<forall>g<length frame. f \<le> g + 5 \<and> g \<le> f + 5 \<longrightarrow> frame ! g \<le> m)"
  unfolding local_peaks_def using is_peak_iff by auto

lemma set_sort_by_second_desc [simp]:
  "set (sort_by_second_desc xs) = set xs"
  by (simp add: sort_by_second_desc_def)

lemma length_sort_by_second_desc [simp]:
  "length (sort_by_second_desc xs) = length xs"
  by (simp add: sort_by_second_desc_def)

lemma py_prefix_nonneg: "0 \<le> n \<Longrightarrow> py_prefix xs n = take (nat n) xs"
  by (simp add: py_prefix_def)

lemma sorted_wrt_take_drop:
  assumes "sorted_wrt R xs" "x \<in> set (take n xs)" "y \<in> set (drop n xs)"
  shows "R x y"
proof -
  have "sorted_wrt R (take n xs @ drop n xs)" using assms(1) by simp
  then show ?thesis using assms(2,3) unfolding sorted_wrt_append by blast
qed

lemma filter_concat_key:
  assumes "\<And>i x. i < n \<Longrightarrow> x \<in> set (F i) \<Longrightarrow> key x = int i" "t < n"
  shows "filter (\<lambda>x. key x = int t) (concat (map F [0..<n])) = F t"
  using assms
proof (induction n)
  case 0
  then show ?case by simp
next
  case (Suc n)
  have last: "filter (\<lambda>x. key x = int t) (F n) = (if t = n then F n else [])"
    using Suc.prems(1)[of n] by (auto simp: filter_empty_conv intro: filter_True)
  show ?case
  proof (cases "t = n")
    case True
    have "key x \<noteq> int t" if "i < n" "x \<in> set (F i)" for i x
      using Suc.prems(1)[of i x] that True by simp
    then have "filter (\<lambda>x. key x = int t) (concat (map F [0..<n])) = []"
      by (auto simp: filter_empty_conv)
    then show ?thesis using last True by simp
  next
    case False
    then have "t < n" using Suc.prems(2) by simp
    then have "filter (\<lambda>x. key x = int t) (concat (map F [0..<n])) = F t"
      using Suc.IH Suc.prems(1) by simp
    then show ?thesis using last False by simp
  qed
qed

lemma frame_peaks_time: "p \<in> set (frame_peaks self t frame) \<Longrightarrow> peak_time p = int t"
  by (auto simp: frame_peaks_def peak_time_def)

lemma find_peaks_frame:
  assumes "t < length S"
  shows "filter (\<lambda>p. peak_time p = int t) (find_peaks self S) = frame_peaks self t (S ! t)"
  unfolding find_peaks_def
  by (rule filter_concat_key[where F = "\<lambda>t. frame_peaks self t (S ! t)"])
     (auto simp: frame_peaks_time assms)

lemma top_peaks_take:
  "0 \<le> max_peaks self \<Longrightarrow>
   top_peaks self frame = take (nat (max_peaks self)) (sort_by_second_desc (local_peaks frame))"
  by (simp add: top_peaks_def py_prefix_nonneg)

lemma mset_take_drop: "mset xs = mset (take n xs) + mset (drop n xs)"
  by (metis append_take_drop_id mset_append)

text \<open>
  Claim C3, as the code has it. For a frame \<open>t\<close> of the grid and a cap that is not
  negative: the peaks that \<open>find_peaks\<close> emits for the frame are its top peaks; a bin is a
  candidate exactly when its magnitude is above \<open>-40\<close> and no bin at most five bins away
  (inside the frame) is louder, so a bin that ties with a neighbour is a candidate too;
  the top peaks are ordered by magnitude, descending, and there are as many of them as the
  cap allows; every candidate left out is at most as loud as every peak kept.
\<close>
theorem find_peaks_frame_selection:
  assumes "t < length S" and "0 \<le> max_peaks self"
  shows "filter (\<lambda>p. peak_time p = int t) (find_peaks self S) =
           map (\<lambda>(freq, mag). (int t, int freq, mag)) (top_peaks self (S ! t))
     \<and> ((f, m) \<in> set (local_peaks (S ! t)) \<longleftrightarrow>
          f < length (S ! t) \<and> m = S ! t ! f \<and> - 40 < m \<and>
          (\<forall>g<length (S ! t). f \<le> g + 5 \<and> g \<le> f + 5 \<longrightarrow> S ! t ! g \<le> m))
     \<and> length (top_peaks self (S ! t)) = min (nat (max_peaks self)) (length (local_peaks (S ! t)))
     \<and> sorted_wrt (\<lambda>a b. snd b \<le> snd a) (top_peaks self (S ! t))
     \<and> mset (top_peaks self (S ! t)) \<subseteq># mset (local_peaks (S ! t))
     \<and> (\<forall>x \<in># mset (local_peaks (S ! t)) - mset (top_peaks self (S ! t)).
          \<forall>y \<in> set (top_peaks self (S ! t)). snd x \<le> snd y)"
proof -
  let ?fr = "S ! t" and ?n = "nat (max_peaks self)"
  let ?sorted = "sort_by_second_desc (local_peaks ?fr)"
  have top: "top_peaks self ?fr = take ?n ?sorted"
    using assms(2) by (rule top_peaks_take)
  have ms: "mset (local_peaks ?fr) = mset (take ?n ?sorted) + mset (drop ?n ?sorted)"
    using mset_take_drop[of ?sorted ?n] by (simp add: sort_by_second_desc_def)
  have srt: "sorted_wrt (\<lambda>a b. snd b \<le> snd a) ?sorted"
    by (rule sorted_desc_sort_by_second_desc)
  have 1: "filter (\<lambda>p. peak_time p = int t) (find_peaks self S) =
           map (\<lambda>(freq, mag). (int t, int freq, mag)) (top_peaks self ?fr)"
    using find_peaks_frame[OF assms(1), of self] by (simp add: frame_peaks_def)
  have 2: "(f, m) \<in> set (local_peaks ?fr) \<longleftrightarrow>
          f < length ?fr \<and> m = ?fr ! f \<and> - 40 < m \<and>
          (\<forall>g<length ?fr. f \<le> g + 5 \<and> g \<le> f + 5 \<longrightarrow> ?fr ! g \<le> m)"
    by (rule local_peaks_iff)
  have 3: "length (top_peaks self ?fr) = min ?n (length (local_peaks ?fr))"
    by (simp add: top min.commute)
  have 4: "sorted_wrt (\<lambda>a b. snd b \<le> snd a) (top_peaks self ?fr)"
    unfolding top using srt by (rule sorted_wrt_take)
  have 5: "mset (top_peaks self ?fr) \<subseteq># mset (local_peaks ?fr)"
    unfolding top ms by simp
  have 6: "\<forall>x \<in># mset (local_peaks ?fr) - mset (top_peaks self ?fr).
          \<forall>y \<in> set (top_peaks self ?fr). snd x \<le> snd y"
  proof (intro ballI)
    fix x y
    assume "x \<in># mset (local_peaks ?fr) - mset (top_peaks self ?fr)"
      and y: "y \<in> set (top_peaks self ?fr)"
    then have "x \<in> set (drop ?n ?sorted)"
      unfolding top ms by simp
    with srt y show "snd x \<le> snd y"
      using sorted_wrt_take_drop[of "\<lambda>a b. snd b \<le> snd a" ?sorted y ?n x]
      unfolding top by simp
  qed
  from 1 2 3 4 5 6 show ?thesis by blast
qed

lemma concat_map_if:
  "concat (map (\<lambda>j. if P j then [f j] else []) ys) = map f (filter P ys)"
  by (induction ys) auto

lemma target_range_filter:
  assumes "i < length peaks"
  shows "target_range peaks fan_out i =
         filter (\<lambda>j. i < j \<and> int j \<le> int i + fan_out) [0..<length peaks]"
  unfolding target_range_def
proof (rule sorted_distinct_set_unique)
  show "sorted (filter (\<lambda>j. i < j \<and> int j \<le> int i + fan_out) [0..<length peaks])"
    by (rule sorted_wrt_filter) simp
  show "set [i + 1..<nat (min (int i + fan_out + 1) (int (length peaks)))] =
        set (filter (\<lambda>j. i < j \<and> int j \<le> int i + fan_out) [0..<length peaks])"
    by auto
qed simp_all

lemma landmark_pairs_comprehension:
  "landmark_pairs peaks fan_out =
     [(peaks ! i, peaks ! j). i \<leftarrow> [0..<length peaks], j \<leftarrow> [0..<length peaks],
        i < j \<and> int j \<le> int i + fan_out]"
proof -
  have "map (\<lambda>i. map (\<lambda>j. (peaks ! i, peaks ! j)) (target_range peaks fan_out i)) [0..<length peaks]
      = map (\<lambda>i. concat (map (\<lambda>j. if i < j \<and> int j \<le> int i + fan_out
                                     then [(peaks ! i, peaks ! j)] else []) [0..<length peaks]))
          [0..<length peaks]"
    by (rule map_cong) (simp_all add: concat_map_if target_range_filter)
  then show ?thesis by (simp only: landmark_pairs_def)
qed

lemma landmark_pairs_short: "length peaks < 2 \<Longrightarrow> landmark_pairs peaks fan_out = []"
  by (auto simp: landmark_pairs_def target_range_def)

lemma landmark_pairs_elem:
  assumes "(a, b) \<in> set (landmark_pairs peaks fan_out)"
  shows "\<exists>i j. i < j \<and> j < length peaks \<and> a = peaks ! i \<and> b = peaks ! j"
proof -
  from assms obtain i j where i: "i < length peaks" and j: "j \<in> set (target_range peaks fan_out i)"
    and ab: "a = peaks ! i" "b = peaks ! j"
    by (auto simp: landmark_pairs_def)
  from j have "i < j" "j < length peaks"
    by (auto simp: target_range_def)
  with ab show ?thesis by blast
qed

text \<open>
  Claim C4. \<open>generate_hashes\<close> emits one fingerprint for every anchor at index \<open>i\<close> and
  every target at an index \<open>j\<close> with \<open>i < j \<le> i + fan_out\<close> inside the sequence, in the
  order of the anchors and then of the targets. The hash of a fingerprint is the digest of
  the text \<open>freq1|freq2|time_diff\<close> modulo \<open>2^32\<close>, its time offset is the anchor's time
  frame, its track is unset, and fewer than two peaks give no fingerprint.
\<close>
theorem generate_hashes_pairs:
  "generate_hashes L peaks fan_out =
     [make_fingerprint L (peaks ! i) (peaks ! j). i \<leftarrow> [0..<length peaks], j \<leftarrow> [0..<length peaks],
        i < j \<and> int j \<le> int i + fan_out]
   \<and> hash_value (make_fingerprint L anchor target) =
       int (hashlib_sha256 L (py_str (peak_freq anchor) @ ''|'' @ py_str (peak_freq target) @ ''|'' @
              py_str (peak_time target - peak_time anchor))) mod 2 ^ 32
   \<and> time_offset (make_fingerprint L anchor target) = peak_time anchor
   \<and> track_id (make_fingerprint L anchor target) = None
   \<and> (length peaks < 2 \<longrightarrow> generate_hashes L peaks fan_out = [])"
proof (intro conjI impI)
  show "generate_hashes L peaks fan_out =
     [make_fingerprint L (peaks ! i) (peaks ! j). i \<leftarrow> [0..<length peaks], j \<leftarrow> [0..<length peaks],
        i < j \<and> int j \<le> int i + fan_out]"
    unfolding generate_hashes_def landmark_pairs_comprehension
    by (simp add: map_concat comp_def if_distrib[of "map _"] cong: if_cong)
qed (simp_all add: make_fingerprint_def Let_def hash_input_def time_diff_def generate_hashes_def
      landmark_pairs_short)

lemma sorted_concat_frames:
  assumes "\<And>i x. i < n \<Longrightarrow> x \<in> set (F i) \<Longrightarrow> key x = int i"
  shows "sorted (map key (concat (map F [0..<n])))"
  using assms
proof (induction n)
  case 0
  show ?case by simp
next
  case (Suc n)
  have "sorted (map key (concat (map F [0..<n])))"
    using Suc by simp
  moreover have "sorted (map key (F n))"
    using Suc.prems[of n] by (simp add: sorted_wrt_iff_nth_less sorted_map)
  moreover have "key x \<le> key y" if "x \<in> set (concat (map F [0..<n]))" "y \<in> set (F n)" for x y
  proof -
    from that(1) obtain i where "i < n" "x \<in> set (F i)" by auto
    then have "key x = int i" using Suc.prems[of i x] by simp
    moreover have "key y = int n" using Suc.prems[of n y] that(2) by simp
    ultimately show ?thesis using \<open>i < n\<close> by simp
  qed
  ultimately show ?case
    by (auto simp: sorted_append)
qed

lemma find_peaks_sorted: "sorted (map peak_time (find_peaks self S))"
  unfolding find_peaks_def by (rule sorted_concat_frames) (simp add: frame_peaks_time)

text \<open>
  Claim C9. The time frames of the peaks that \<open>find_peaks\<close> emits never decrease, so the
  time difference of every anchor and target that \<open>generate_hashes\<close> pairs from them is
  not negative.
\<close>
theorem find_peaks_time_ordered:
  "sorted (map peak_time (find_peaks self S))
   \<and> (\<forall>(anchor, target) \<in> set (landmark_pairs (find_peaks self S) fan_out).
        0 \<le> time_diff anchor target)"
proof (intro conjI ballI)
  show "sorted (map peak_time (find_peaks self S))"
    by (rule find_peaks_sorted)
next
  fix p assume p: "p \<in> set (landmark_pairs (find_peaks self S) fan_out)"
  obtain a b where ab: "p = (a, b)" by (cases p)
  from p ab obtain i j where ij: "i < j" "j < length (find_peaks self S)"
      "a = find_peaks self S ! i" "b = find_peaks self S ! j"
    using landmark_pairs_elem by blast
  have "map peak_time (find_peaks self S) ! i \<le> map peak_time (find_peaks self S) ! j"
    using ij(1,2) find_peaks_sorted[of self S] by (simp add: sorted_iff_nth_mono del: nth_map)
  then have "peak_time a \<le> peak_time b"
    using ij by simp
  then show "case p of (anchor, target) \<Rightarrow> 0 \<le> time_diff anchor target"
    by (simp add: ab time_diff_def)
qed

lemma preprocess_audio_empty: "preprocess_audio L [] = Inl (ValueError ''Empty audio input'')"
  by (simp add: preprocess_audio_def)

lemma fingerprint_audio_try_empty:
  "fingerprint_audio_try L self [] tid = Inl (ValueError ''Empty audio input'')"
  by (simp add: fingerprint_audio_try_def preprocess_audio_empty)

text \<open>
  Claim C2, as the code has it. On an empty buffer \<open>preprocess_audio\<close> raises the error
  \<open>Empty audio input\<close> before it calls anything else; \<open>fingerprint_audio\<close> catches it,
  logs it and returns the empty list of fingerprints.
\<close>
theorem fingerprint_audio_empty_input:
  "preprocess_audio L [] = Inl (ValueError ''Empty audio input'')
   \<and> fingerprint_audio L self [] tid lg = ([], lg @ [''Fingerprinting failed: Empty audio input''])"
  by (simp add: preprocess_audio_empty fingerprint_audio_def fingerprint_audio_try_empty)

lemma parallel_fingerprint_empty: "parallel_fingerprint L [] = Inr []"
  by (simp add: parallel_fingerprint_def pool_map_def)

lemma parallel_fingerprint_nonempty:
  "audio_files \<noteq> [] \<Longrightarrow>
   parallel_fingerprint L audio_files =
     Inl (AttributeError (cannot_pickle ''parallel_fingerprint.<locals>.process_file''))"
  by (simp add: parallel_fingerprint_def pool_map_def)





lemma result_tracks_append:
  "result_tracks (rs @ rs') = result_tracks rs @ result_tracks rs'"
  by (induction rs rule: result_tracks.induct) simp_all


lemma add_hits_append: "add_hits (hs @ hs') tm = add_hits hs' (add_hits hs tm)"
  by (simp add: add_hits_def)

lemma match_rows_add_hits:
  "match_rows fp rows tm = add_hits (map (\<lambda>(tid, off). (tid, \<bar>time_offset fp - off\<bar>)) rows) tm"
  by (induction fp rows tm rule: match_rows.induct) (simp_all add: add_hits_def)

lemma match_samples_add_hits: "match_samples db q tm = add_hits (index_hits db q) tm"
  by (induction db q tm rule: match_samples.induct)
     (simp_all add: index_hits_def match_rows_add_hits add_hits_append, simp add: add_hits_def)

lemma first_occurrences_snoc:
  "first_occurrences (xs @ [x]) = (if x \<in> set xs then first_occurrences xs else first_occurrences xs @ [x])"
  by (simp add: first_occurrences_def)

lemma set_first_occurrences [simp]: "set (first_occurrences xs) = set xs"
  by (simp add: first_occurrences_def)

lemma distinct_first_occurrences [simp]: "distinct (first_occurrences xs)"
  by (simp add: first_occurrences_def)

lemma append_diff_present:
  "tid \<in> set ks \<Longrightarrow> distinct ks \<Longrightarrow>
   append_diff tid d (map (\<lambda>k. (k, G k)) ks) = map (\<lambda>k. (k, if k = tid then G k @ [d] else G k)) ks"
  by (induction ks) auto

lemma append_diff_absent:
  "tid \<notin> set ks \<Longrightarrow>
   append_diff tid d (map (\<lambda>k. (k, G k)) ks) = map (\<lambda>k. (k, G k)) ks @ [(tid, [d])]"
  by (induction ks) auto

lemma group_of_snoc:
  "group_of (hs @ [(tid, d)]) k = (if k = tid then group_of hs k @ [d] else group_of hs k)"
  by (simp add: group_of_def)

lemma group_of_absent: "tid \<notin> fst ` set hs \<Longrightarrow> group_of hs tid = []"
  by (auto simp: group_of_def filter_empty_conv)

lemma add_hits_grouped:
  "add_hits hs [] = map (\<lambda>k. (k, group_of hs k)) (first_occurrences (map fst hs))"
proof (induction hs rule: rev_induct)
  case Nil
  show ?case by (simp add: add_hits_def first_occurrences_def)
next
  case (snoc h hs)
  obtain tid d where h: "h = (tid, d)" by (cases h)
  let ?ks = "first_occurrences (map fst hs)"
  have step: "add_hits (hs @ [h]) [] = append_diff tid d (map (\<lambda>k. (k, group_of hs k)) ?ks)"
    using snoc.IH by (simp add: add_hits_def h)
  show ?case
  proof (cases "tid \<in> fst ` set hs")
    case True
    then have "tid \<in> set ?ks" by simp
    then have "append_diff tid d (map (\<lambda>k. (k, group_of hs k)) ?ks)
        = map (\<lambda>k. (k, if k = tid then group_of hs k @ [d] else group_of hs k)) ?ks"
      by (rule append_diff_present) simp
    also have "\<dots> = map (\<lambda>k. (k, group_of (hs @ [h]) k)) ?ks"
      by (simp add: h group_of_snoc)
    finally have a: "append_diff tid d (map (\<lambda>k. (k, group_of hs k)) ?ks)
        = map (\<lambda>k. (k, group_of (hs @ [h]) k)) ?ks" .
    have b: "first_occurrences (map fst (hs @ [h])) = ?ks"
      using True by (simp add: first_occurrences_snoc h)
    show ?thesis by (simp only: step a b)
  next
    case False
    then have "tid \<notin> set ?ks" by simp
    then have "append_diff tid d (map (\<lambda>k. (k, group_of hs k)) ?ks)
        = map (\<lambda>k. (k, group_of hs k)) ?ks @ [(tid, [d])]"
      by (rule append_diff_absent)
    also have "\<dots> = map (\<lambda>k. (k, group_of (hs @ [h]) k)) (?ks @ [tid])"
      using False by (auto simp: h group_of_snoc group_of_absent)
    finally have a: "append_diff tid d (map (\<lambda>k. (k, group_of hs k)) ?ks)
        = map (\<lambda>k. (k, group_of (hs @ [h]) k)) (?ks @ [tid])" .
    have b: "first_occurrences (map fst (hs @ [h])) = ?ks @ [tid]"
      using False by (simp add: first_occurrences_snoc h)
    show ?thesis by (simp only: step a b)
  qed
qed

lemma match_samples_grouped:
  "match_samples db q [] = map (\<lambda>tid. (tid, deltas db q tid)) (first_hit_order db q)"
  by (simp add: match_samples_add_hits add_hits_grouped first_hit_order_def deltas_def group_of_def)

lemma match_results_grouped:
  "match_results th (match_samples db q []) =
     map (\<lambda>tid. (tid, confidence (deltas db q tid)))
       (filter (\<lambda>tid. th \<le> int (total_matches db q tid)) (first_hit_order db q))"
  by (simp add: match_results_def match_samples_grouped filter_map comp_def total_matches_def)

lemma first_hit_order_iff: "tid \<in> set (first_hit_order db q) \<longleftrightarrow> 0 < total_matches db q tid"
  by (auto simp: first_hit_order_def total_matches_def deltas_def filter_empty_conv)

lemma confidence_deltas:
  "confidence (deltas db q tid) =
     of_nat (total_matches db q tid) / of_nat (max 1 (unique_deltas db q tid))"
  by (simp add: confidence_def total_matches_def unique_deltas_def card_set)

lemma unique_le_total: "unique_deltas db q tid \<le> total_matches db q tid"
  by (simp add: unique_deltas_def total_matches_def card_length)

lemma match_fingerprint_member:
  "(tid, c) \<in> set (match_fingerprint db q th) \<longleftrightarrow>
     0 < total_matches db q tid \<and> th \<le> int (total_matches db q tid) \<and>
     c = of_nat (total_matches db q tid) / of_nat (max 1 (unique_deltas db q tid))"
  by (auto simp: match_fingerprint_def sort_by_second_desc_def match_results_grouped
      first_hit_order_iff confidence_deltas)

lemma match_fingerprint_distinct: "distinct (map fst (match_fingerprint db q th))"
  by (simp add: match_fingerprint_def distinct_map_fst_sort match_results_grouped comp_def
      first_hit_order_def first_occurrences_def)

text \<open>
  Claim C1, as the code has it. \<open>match_fingerprint\<close> returns a track with a confidence
  exactly when the query hits the track at least once, the number of hits is at least the
  threshold, and the confidence is that number over the number of distinct deltas (at least
  one). No track comes twice. The result is ordered by confidence, descending, and tracks
  of equal confidence stay in the order in which the query first hit them.
\<close>
theorem match_fingerprint_threshold_order:
  "((tid, c) \<in> set (match_fingerprint db q th) \<longleftrightarrow>
      0 < total_matches db q tid \<and> th \<le> int (total_matches db q tid) \<and>
      c = of_nat (total_matches db q tid) / of_nat (max 1 (unique_deltas db q tid)))
   \<and> distinct (map fst (match_fingerprint db q th))
   \<and> sorted_wrt (\<lambda>a b. snd b \<le> snd a) (match_fingerprint db q th)
   \<and> filter (\<lambda>x. snd x = c') (match_fingerprint db q th) =
       filter (\<lambda>x. snd x = c')
         (map (\<lambda>t. (t, of_nat (total_matches db q t) / of_nat (max 1 (unique_deltas db q t))))
           (filter (\<lambda>t. th \<le> int (total_matches db q t)) (first_hit_order db q)))"
proof (intro conjI)
  show "(tid, c) \<in> set (match_fingerprint db q th) \<longleftrightarrow>
      0 < total_matches db q tid \<and> th \<le> int (total_matches db q tid) \<and>
      c = of_nat (total_matches db q tid) / of_nat (max 1 (unique_deltas db q tid))"
    by (rule match_fingerprint_member)
  show "distinct (map fst (match_fingerprint db q th))"
    by (rule match_fingerprint_distinct)
  show "sorted_wrt (\<lambda>a b. snd b \<le> snd a) (match_fingerprint db q th)"
    unfolding match_fingerprint_def by (rule sorted_desc_sort_by_second_desc)
  show "filter (\<lambda>x. snd x = c') (match_fingerprint db q th) =
       filter (\<lambda>x. snd x = c')
         (map (\<lambda>t. (t, of_nat (total_matches db q t) / of_nat (max 1 (unique_deltas db q t))))
           (filter (\<lambda>t. th \<le> int (total_matches db q t)) (first_hit_order db q)))"
    unfolding match_fingerprint_def sort_by_second_desc_stable match_results_grouped
    by (simp add: confidence_deltas)
qed

text \<open>
  Claim C10. Every confidence that \<open>match_fingerprint\<close> returns is at least one.
\<close>
theorem match_fingerprint_confidence_ge_1:
  assumes "(tid, c) \<in> set (match_fingerprint db q th)"
  shows "1 \<le> c"
proof -
  let ?n = "total_matches db q tid" and ?u = "unique_deltas db q tid"
  from assms have pos: "0 < ?n" and c: "c = of_nat ?n / of_nat (max 1 ?u)"
    by (simp_all add: match_fingerprint_member)
  have "max 1 ?u \<le> ?n"
    using pos unique_le_total[of db q tid] by simp
  then have "(of_nat (max 1 ?u) :: rat) \<le> of_nat ?n"
    by (simp only: of_nat_le_iff)
  moreover have "(0::rat) < of_nat (max 1 ?u)"
    by simp
  ultimately show ?thesis
    unfolding c by (simp add: le_divide_eq)
qed

lemma primary_key_tuple [simp]: "primary_key (hv, tid, off, rest) = (hv, tid, off)"
  by (cases rest) (simp add: primary_key_def)

lemma keys_insert_or_ignore:
  "primary_key ` set (insert_or_ignore r db) = insert (primary_key r) (primary_key ` set db)"
  by (simp add: insert_or_ignore_def insert_absorb)

lemma keys_insert_track:
  "primary_key ` set (insert_track tid fps db) = track_keys tid fps \<union> primary_key ` set db"
  by (induction tid fps db rule: insert_track.induct)
     (auto simp: keys_insert_or_ignore track_keys_def)

lemma insert_track_present:
  "track_keys tid fps \<subseteq> primary_key ` set db \<Longrightarrow> insert_track tid fps db = db"
  by (induction tid fps db rule: insert_track.induct)
     (auto simp: insert_or_ignore_def track_keys_def)

lemma keys_insert_fingerprints:
  "primary_key ` set (insert_fingerprints d db) = dict_keys d \<union> primary_key ` set db"
  by (induction d db rule: insert_fingerprints.induct)
     (auto simp: keys_insert_track dict_keys_def)

lemma insert_fingerprints_present:
  "dict_keys d \<subseteq> primary_key ` set db \<Longrightarrow> insert_fingerprints d db = db"
  by (induction d db rule: insert_fingerprints.induct)
     (auto simp: insert_track_present dict_keys_def)

text \<open>
  Claim C5. Inserting the same dictionary of fingerprints a second time leaves the table as
  the first insertion left it.
\<close>
theorem insert_fingerprints_idempotent:
  "insert_fingerprints d (insert_fingerprints d db) = insert_fingerprints d db"
  by (rule insert_fingerprints_present) (simp add: keys_insert_fingerprints)


section \<open>The theorems at concrete inputs\<close>

subsection \<open>Peaks and hashes\<close>

text \<open>
  A frame with three candidates and a cap of two: the two loudest are kept, in the order
  of their magnitudes.
\<close>

theorem find_peaks_frame_selection_witness:
  "0 < length [three_peak_frame]
   \<and> 0 \<le> max_peaks (default_fingerprinter\<lparr>max_peaks := 2\<rparr>)
   \<and> length (local_peaks three_peak_frame) = 3
   \<and> length (top_peaks (default_fingerprinter\<lparr>max_peaks := 2\<rparr>) three_peak_frame) = 2
   \<and> find_peaks (default_fingerprinter\<lparr>max_peaks := 2\<rparr>) [three_peak_frame] =
        [(0, 6, - 3), (0, 0, - 5)]"
proof -
  let ?self = "default_fingerprinter\<lparr>max_peaks := 2\<rparr>"
  have t: "0 < length [three_peak_frame]"
    by simp
  have cap: "0 \<le> max_peaks ?self"
    by simp
  have n: "length (local_peaks three_peak_frame) = 3"
    by code_simp
  have out: "find_peaks ?self [three_peak_frame] = [(0, 6, - 3), (0, 0, - 5)]"
    by code_simp
  have "length (top_peaks ?self ([three_peak_frame] ! 0)) =
      min (nat (max_peaks ?self)) (length (local_peaks ([three_peak_frame] ! 0)))"
    using find_peaks_frame_selection[OF t cap] by blast
  then have "length (top_peaks ?self three_peak_frame) = 2"
    using n by simp
  with t cap n out show ?thesis by blast
qed

text \<open>
  Against claim C3 as it is worded: in a frame of two equally loud bins, bin 0 is emitted
  as a peak although it is not the strict maximum of its neighbourhood.
\<close>

theorem find_peaks_plateau_counterexample:
  "(0, 0, - 10) \<in> set (find_peaks default_fingerprinter [plateau_frame])
   \<and> \<not> spec_strict_local_max plateau_frame 0"
  by code_simp

text \<open>Three peaks and a fan-out of one give two fingerprints; a single peak gives none.\<close>

theorem generate_hashes_pairs_witness:
  "generate_hashes toy_library [(0, 3, - 1), (0, 9, - 2), (1, 4, - 3)] 1 =
     [\<lparr>hash_value = 404, track_id = None, time_offset = 0, frequency_pair = (3, 9)\<rparr>,
      \<lparr>hash_value = 406, track_id = None, time_offset = 0, frequency_pair = (9, 4)\<rparr>]
   \<and> length [(0, 3, - 1) :: peak] < 2
   \<and> generate_hashes toy_library [(0, 3, - 1)] 5 = []"
proof -
  have a: "generate_hashes toy_library [(0, 3, - 1), (0, 9, - 2), (1, 4, - 3)] 1 =
     [\<lparr>hash_value = 404, track_id = None, time_offset = 0, frequency_pair = (3, 9)\<rparr>,
      \<lparr>hash_value = 406, track_id = None, time_offset = 0, frequency_pair = (9, 4)\<rparr>]"
    by code_simp
  have b: "length [(0, 3, - 1) :: peak] < 2"
    by simp
  have "length [(0, 3, - 1) :: peak] < 2 \<longrightarrow> generate_hashes toy_library [(0, 3, - 1)] 5 = []"
    using generate_hashes_pairs[of toy_library "[(0, 3, - 1)]" 5] by blast
  with a b show ?thesis by blast
qed

text \<open>Two frames of one bin each: one pair, one frame apart.\<close>

theorem find_peaks_time_ordered_witness:
  "landmark_pairs (find_peaks default_fingerprinter [[0], [0]]) 5 = [((0, 0, 0), (1, 0, 0))]
   \<and> sorted (map peak_time (find_peaks default_fingerprinter [[0], [0]]))
   \<and> 0 \<le> time_diff (0, 0, 0) (1, 0, 0)"
proof -
  have pairs: "landmark_pairs (find_peaks default_fingerprinter [[0], [0]]) 5 =
      [((0, 0, 0), (1, 0, 0))]"
    by code_simp
  note inst = find_peaks_time_ordered[of default_fingerprinter "[[0], [0]]" 5]
  from inst have "sorted (map peak_time (find_peaks default_fingerprinter [[0], [0]]))"
    by blast
  moreover from inst have "0 \<le> time_diff (0, 0, 0) (1, 0, 0)"
    unfolding pairs by simp
  ultimately show ?thesis using pairs by blast
qed

subsection \<open>The pipeline and the batch\<close>

text \<open>The empty buffer in the small library, with one line already in the log.\<close>

theorem fingerprint_audio_empty_input_witness:
  "preprocess_audio toy_library [] = Inl (ValueError ''Empty audio input'')
   \<and> fingerprint_audio toy_library default_fingerprinter [] (Some ''b'') [''earlier line''] =
       ([], [''earlier line'', ''Fingerprinting failed: Empty audio input''])"
  using fingerprint_audio_empty_input[of toy_library default_fingerprinter "Some ''b''"
      "[''earlier line'']"]
  by simp

text \<open>
  Against claim C2 as it is worded: given an empty buffer, \<open>fingerprint_audio\<close> returns
  the empty list to its caller; the error is in the log only.
\<close>

theorem fingerprint_audio_empty_counterexample:
  "fingerprint_audio toy_library default_fingerprinter [] None [] =
     ([], [''Fingerprinting failed: Empty audio input''])"
  by code_simp

text \<open>
  Claim C6, at the batch of three files of which \<^verbatim>\<open>b.wav\<close> decodes to an empty buffer. The
  call raises for the whole batch, since the pool cannot pickle \<^verbatim>\<open>process_file\<close>; no
  result is returned for the other two files. And \<^verbatim>\<open>process_file\<close> on its own does not
  return \<^verbatim>\<open>None\<close> for the empty buffer, as it does for a file that does not load: it
  returns the track with the empty list.
\<close>

theorem parallel_fingerprint_batch_raises:
  "parallel_fingerprint toy_library [''a.wav'', ''b.wav'', ''c.wav''] =
     Inl (AttributeError (cannot_pickle ''parallel_fingerprint.<locals>.process_file''))
   \<and> process_file toy_library ''b.wav'' [] =
       (Some (''b'', []), [''Fingerprinting failed: Empty audio input''])
   \<and> process_file toy_library ''d.wav'' [] =
       (None, [''Failed to process d.wav: file not found''])"
  by code_simp



subsection \<open>The table and the matcher\<close>

text \<open>Inserting the two fingerprints of a track twice leaves two rows.\<close>

theorem insert_fingerprints_idempotent_witness:
  "insert_fingerprints [(''a'', small_query)] (insert_fingerprints [(''a'', small_query)] []) =
     [(1, ''a'', 0, 3, 4), (2, ''a'', 5, 4, 7)]"
proof -
  have "insert_fingerprints [(''a'', small_query)] [] = [(1, ''a'', 0, 3, 4), (2, ''a'', 5, 4, 7)]"
    by code_simp
  then show ?thesis
    using insert_fingerprints_idempotent[of "[(''a'', small_query)]" "[]"] by simp
qed

text \<open>
  The threshold at its boundary: with a threshold of two, track \<open>a\<close> with two hits is
  returned and track \<open>b\<close> with one hit is not.
\<close>

theorem match_fingerprint_threshold_order_witness:
  "total_matches small_db small_query ''a'' = 2
   \<and> unique_deltas small_db small_query ''a'' = 1
   \<and> total_matches small_db small_query ''b'' = 1
   \<and> (''a'', 2) \<in> set (match_fingerprint small_db small_query 2)
   \<and> (''b'', 1) \<notin> set (match_fingerprint small_db small_query 2)"
proof -
  have a: "total_matches small_db small_query ''a'' = 2"
    by code_simp
  have u: "unique_deltas small_db small_query ''a'' = 1"
    by code_simp
  have b: "total_matches small_db small_query ''b'' = 1"
    by code_simp
  have "(''a'', 2) \<in> set (match_fingerprint small_db small_query 2)"
    using match_fingerprint_threshold_order[of "''a''" 2 small_db small_query 2 2] a u by simp
  moreover have "(''b'', 1) \<notin> set (match_fingerprint small_db small_query 2)"
    using match_fingerprint_threshold_order[of "''b''" 1 small_db small_query 2 1] b by simp
  ultimately show ?thesis using a u b by blast
qed

text \<open>
  Against claim C1 as it is worded: two tracks of equal confidence come in the order in
  which the query hit them, \<open>b\<close> before \<open>a\<close>, not by ascending track identifier.
\<close>

theorem match_fingerprint_tie_order_counterexample:
  "match_fingerprint tie_db tie_query 1 = [(''b'', 1), (''a'', 1)]
   \<and> \<not> spec_result_order (match_fingerprint tie_db tie_query 1)"
  by code_simp

text \<open>Track \<open>a\<close>, hit twice at the same delta, has confidence two.\<close>

theorem match_fingerprint_confidence_ge_1_witness:
  "(''a'', 2) \<in> set (match_fingerprint small_db small_query 1) \<and> (1 :: rat) \<le> 2"
proof -
  have mem: "(''a'', 2) \<in> set (match_fingerprint small_db small_query 1)"
    by code_simp
  from match_fingerprint_confidence_ge_1[OF mem] mem show ?thesis
    by blast
qed

end
